theory Spec2Isabelle
  imports Main "HOL-Library.Word"
begin

section \<open>elog: level vocabulary and build-time configuration (elog.h, sections 1 to 5)\<close>

text \<open>
  The logger is a single header of preprocessor macros plus one global byte. The
  embedding follows the two stages a call site goes through: translation (the
  preprocessor selects and expands a macro, the C parser reads the resulting
  \<^verbatim>\<open>printf\<close> call) and execution (the guard on \<^verbatim>\<open>elog_runtime_level\<close>, the
  evaluation of the arguments, the call of \<^verbatim>\<open>printf\<close>).
\<close>

datatype elog_level_t =
    ELOG_LEVEL_OFF
  | ELOG_LEVEL_CRITICAL
  | ELOG_LEVEL_ERROR
  | ELOG_LEVEL_WARN
  | ELOG_LEVEL_INFO
  | ELOG_LEVEL_DEBUG
  | ELOG_LEVEL_TRACE

text \<open>The value of each enumeration constant in C proper (\<^verbatim>\<open>ELOG_LEVEL_OFF = 0\<close>, then counting up).\<close>

fun enum_value :: "elog_level_t \<Rightarrow> int" where
  "enum_value ELOG_LEVEL_OFF = 0"
| "enum_value ELOG_LEVEL_CRITICAL = 1"
| "enum_value ELOG_LEVEL_ERROR = 2"
| "enum_value ELOG_LEVEL_WARN = 3"
| "enum_value ELOG_LEVEL_INFO = 4"
| "enum_value ELOG_LEVEL_DEBUG = 5"
| "enum_value ELOG_LEVEL_TRACE = 6"

text \<open>
  The replacement text of an object-like macro that stands for a level: either the name
  of an enumeration constant (the header's default, \<^verbatim>\<open>#define ELOG_COMPILED_LEVEL
  ELOG_LEVEL_INFO\<close>) or an integer literal (a build system passing
  \<^verbatim>\<open>-DELOG_COMPILED_LEVEL=4\<close>).
\<close>

datatype level_macro = Enumerator elog_level_t | Literal int

text \<open>
  The same token sequence has two readings. In C proper an enumeration constant has its
  value. In the controlling expression of \<^verbatim>\<open>#if\<close> the preprocessor knows macros
  only: \<^verbatim>\<open>ELOG_LEVEL_INFO\<close> is declared by \<^verbatim>\<open>typedef enum\<close>, not by
  \<^verbatim>\<open>#define\<close>, and every identifier that is left after macro replacement is
  replaced by the number 0 before the expression is evaluated (ISO C, 6.10.1).
\<close>

fun c_value :: "level_macro \<Rightarrow> int" where
  "c_value (Enumerator l) = enum_value l"
| "c_value (Literal n) = n"

fun pp_value :: "level_macro \<Rightarrow> int" where
  "pp_value (Enumerator l) = 0"
| "pp_value (Literal n) = n"

text \<open>The suffix that names one of the six families of macros (\<^verbatim>\<open>ELOG_LEVEL_FMT_##lv\<close>).\<close>

datatype suffix = CRITICAL | ERROR | WARN | INFO | DEBUG | TRACE

record elog_config =
  ELOG_COMPILED_LEVEL :: level_macro
  ELOG_USE_RUNTIME_LEVEL :: int
  ELOG_USE_FILE_LINE :: int
  ELOG_USE_COLOR :: int
  ELOG_COLOR_CRITICAL :: string
  ELOG_COLOR_ERROR :: string
  ELOG_COLOR_WARN :: string
  ELOG_COLOR_INFO :: string
  ELOG_COLOR_DEBUG :: string
  ELOG_COLOR_TRACE :: string
  ELOG_COLOR_RESET :: string
  ELOG_LEVEL_FMT_CRITICAL :: string
  ELOG_LEVEL_FMT_ERROR :: string
  ELOG_LEVEL_FMT_WARN :: string
  ELOG_LEVEL_FMT_INFO :: string
  ELOG_LEVEL_FMT_DEBUG :: string
  ELOG_LEVEL_FMT_TRACE :: string
  ELOG_FILE_LINE_FMT_setting :: string

text \<open>
  Every field is the replacement text in effect after the header's \<^verbatim>\<open>#ifndef\<close>
  blocks: the value supplied by the build, or the header's default.
  \<open>ELOG_FILE_LINE_FMT_setting\<close> is the text of \<^verbatim>\<open>ELOG_FILE_LINE_FMT\<close> for builds
  with \<^verbatim>\<open>ELOG_USE_FILE_LINE\<close>. Below are the defaults; \<^verbatim>\<open>\033\<close> is the byte
  0x1B.
\<close>

definition default_config :: elog_config where
  "default_config =
     \<lparr> ELOG_COMPILED_LEVEL = Enumerator ELOG_LEVEL_INFO,
       ELOG_USE_RUNTIME_LEVEL = 1,
       ELOG_USE_FILE_LINE = 1,
       ELOG_USE_COLOR = 1,
       ELOG_COLOR_CRITICAL = CHR 0x1B # ''[1;35m'',
       ELOG_COLOR_ERROR = CHR 0x1B # ''[1;31m'',
       ELOG_COLOR_WARN = CHR 0x1B # ''[1;33m'',
       ELOG_COLOR_INFO = CHR 0x1B # ''[1;32m'',
       ELOG_COLOR_DEBUG = CHR 0x1B # ''[1;36m'',
       ELOG_COLOR_TRACE = CHR 0x1B # ''[0;37m'',
       ELOG_COLOR_RESET = CHR 0x1B # ''[0m'',
       ELOG_LEVEL_FMT_CRITICAL = ''[CRITICAL]'',
       ELOG_LEVEL_FMT_ERROR = ''[ERROR]'',
       ELOG_LEVEL_FMT_WARN = ''[WARN]'',
       ELOG_LEVEL_FMT_INFO = ''[INFO]'',
       ELOG_LEVEL_FMT_DEBUG = ''[DEBUG]'',
       ELOG_LEVEL_FMT_TRACE = ''[TRACE]'',
       ELOG_FILE_LINE_FMT_setting = ''[%s: %d]'' \<rparr>"

text \<open>Resolving the three identifiers that a macro body spells with a suffix.\<close>

fun ELOG_LEVEL :: "suffix \<Rightarrow> elog_level_t" where
  "ELOG_LEVEL CRITICAL = ELOG_LEVEL_CRITICAL"
| "ELOG_LEVEL ERROR = ELOG_LEVEL_ERROR"
| "ELOG_LEVEL WARN = ELOG_LEVEL_WARN"
| "ELOG_LEVEL INFO = ELOG_LEVEL_INFO"
| "ELOG_LEVEL DEBUG = ELOG_LEVEL_DEBUG"
| "ELOG_LEVEL TRACE = ELOG_LEVEL_TRACE"

fun ELOG_LEVEL_FMT :: "elog_config \<Rightarrow> suffix \<Rightarrow> string" where
  "ELOG_LEVEL_FMT cfg CRITICAL = ELOG_LEVEL_FMT_CRITICAL cfg"
| "ELOG_LEVEL_FMT cfg ERROR = ELOG_LEVEL_FMT_ERROR cfg"
| "ELOG_LEVEL_FMT cfg WARN = ELOG_LEVEL_FMT_WARN cfg"
| "ELOG_LEVEL_FMT cfg INFO = ELOG_LEVEL_FMT_INFO cfg"
| "ELOG_LEVEL_FMT cfg DEBUG = ELOG_LEVEL_FMT_DEBUG cfg"
| "ELOG_LEVEL_FMT cfg TRACE = ELOG_LEVEL_FMT_TRACE cfg"

fun ELOG_COLOR :: "elog_config \<Rightarrow> suffix \<Rightarrow> string" where
  "ELOG_COLOR cfg CRITICAL = ELOG_COLOR_CRITICAL cfg"
| "ELOG_COLOR cfg ERROR = ELOG_COLOR_ERROR cfg"
| "ELOG_COLOR cfg WARN = ELOG_COLOR_WARN cfg"
| "ELOG_COLOR cfg INFO = ELOG_COLOR_INFO cfg"
| "ELOG_COLOR cfg DEBUG = ELOG_COLOR_DEBUG cfg"
| "ELOG_COLOR cfg TRACE = ELOG_COLOR_TRACE cfg"

section \<open>Program state and the output primitive\<close>

text \<open>
  A value passed to \<^verbatim>\<open>printf\<close>: an \<^verbatim>\<open>int\<close> or a pointer to a string.
\<close>

datatype val = VInt int | VStr string

text \<open>
  The state a call site can see: the global byte \<^verbatim>\<open>elog_runtime_level\<close>, the calls
  made to \<^verbatim>\<open>printf\<close> so far (format and argument values, oldest first) and the
  caller's own memory.
\<close>

record 'u state =
  elog_runtime_level :: "8 word"
  printf_calls :: "(string \<times> val list) list"
  user :: 'u

text \<open>
  An argument expression is evaluated in a state and yields a value and the state after
  its side effects.
\<close>

type_synonym 'u expr = "'u state \<Rightarrow> val \<times> 'u state"

definition lit :: "val \<Rightarrow> 'u expr" where
  "lit v = (\<lambda>s. (v, s))"

text \<open>elog.c: the definition of the threshold, present only under \<^verbatim>\<open>#if ELOG_USE_RUNTIME_LEVEL\<close>;
  the initialiser is converted to \<^verbatim>\<open>uint8_t\<close>.\<close>

definition elog_c :: "elog_config \<Rightarrow> 8 word option" where
  "elog_c cfg =
     (if ELOG_USE_RUNTIME_LEVEL cfg \<noteq> 0
      then Some (word_of_int (c_value (ELOG_COMPILED_LEVEL cfg)))
      else None)"

text \<open>The state at program start: the threshold as elog.c initialises it, nothing printed.\<close>

definition program_start :: "elog_config \<Rightarrow> 'u \<Rightarrow> 'u state" where
  "program_start cfg u =
     \<lparr> elog_runtime_level = (case elog_c cfg of Some b \<Rightarrow> b | None \<Rightarrow> 0),
       printf_calls = [],
       user = u \<rparr>"

text \<open>
  \<^verbatim>\<open>printf\<close> belongs to the host environment. The fragment of its contract that the
  header relies on: ordinary characters are copied, \<^verbatim>\<open>%%\<close> writes a percent sign,
  \<^verbatim>\<open>%s\<close> consumes a string argument, \<^verbatim>\<open>%d\<close> consumes an \<^verbatim>\<open>int\<close> and writes
  it in decimal, arguments left over are ignored. A conversion whose argument is missing
  or of the other type is undefined behaviour, and so is anything else after a percent
  sign in this fragment; both are reported as errors.
\<close>

datatype printf_error = TypeMismatch | MissingArgument | UnsupportedConversion

definition digit :: "nat \<Rightarrow> char" where
  "digit d = ''0123456789'' ! d"

fun decimal :: "nat \<Rightarrow> string" where
  "decimal n = (if n < 10 then [digit n] else decimal (n div 10) @ [digit (n mod 10)])"

declare decimal.simps [simp del]

definition show_int :: "int \<Rightarrow> string" where
  "show_int i = (if i < 0 then CHR ''-'' # decimal (nat (- i)) else decimal (nat i))"

definition emit :: "string \<Rightarrow> printf_error + string \<Rightarrow> printf_error + string" where
  "emit pre r = (case r of Inl e \<Rightarrow> Inl e | Inr t \<Rightarrow> Inr (pre @ t))"

fun printf_text :: "string \<Rightarrow> val list \<Rightarrow> printf_error + string" where
  "printf_text [] vs = Inr []"
| "printf_text [c] vs = (if c = CHR ''%'' then Inl UnsupportedConversion else Inr [c])"
| "printf_text (c # d # fmt) vs =
     (if c \<noteq> CHR ''%'' then emit [c] (printf_text (d # fmt) vs)
      else if d = CHR ''%'' then emit [d] (printf_text fmt vs)
      else if d = CHR ''s'' then
        (case vs of
           [] \<Rightarrow> Inl MissingArgument
         | VStr x # vs' \<Rightarrow> emit x (printf_text fmt vs')
         | VInt n # vs' \<Rightarrow> Inl TypeMismatch)
      else if d = CHR ''d'' then
        (case vs of
           [] \<Rightarrow> Inl MissingArgument
         | VInt n # vs' \<Rightarrow> emit (show_int n) (printf_text fmt vs')
         | VStr x # vs' \<Rightarrow> Inl TypeMismatch)
      else Inl UnsupportedConversion)"

text \<open>The bytes on the output stream: the text of every call, in order.\<close>

fun stdout_text :: "(string \<times> val list) list \<Rightarrow> printf_error + string" where
  "stdout_text [] = Inr []"
| "stdout_text ((fmt, vs) # calls) =
     (case printf_text fmt vs of Inl e \<Rightarrow> Inl e | Inr t \<Rightarrow> emit t (stdout_text calls))"

section \<open>Internal helper macros and ELOG_IMPL (elog.h, sections 6 and 7)\<close>

text \<open>
  A call site: \<^verbatim>\<open>__FILE_NAME__\<close> and \<^verbatim>\<open>__LINE__\<close> there, the format string
  literal and the variadic arguments the caller wrote.
\<close>

record 'u call_site =
  file_name :: string
  line :: int
  fmt :: string
  va_args :: "'u expr list"

text \<open>
  The argument list of the \<^verbatim>\<open>printf\<close> call is put together from macro
  replacements, so it is kept as tokens until the parser reads it: an expression or a
  comma.
\<close>

datatype 'u token = Arg "'u expr" | Comma

datatype translation_error = SyntaxError | Redefined suffix | Undefined suffix

text \<open>
  \<^verbatim>\<open>ELOG_FILE_LINE_FMT\<close> and \<^verbatim>\<open>ELOG_FILE_LINE_ARGS\<close>: the bracket format and
  \<^verbatim>\<open>__FILE_NAME__, __LINE__\<close> when \<^verbatim>\<open>ELOG_USE_FILE_LINE\<close> is non-zero, and
  both defined with an empty replacement list otherwise.
\<close>

definition ELOG_FILE_LINE_FMT :: "elog_config \<Rightarrow> string" where
  "ELOG_FILE_LINE_FMT cfg =
     (if ELOG_USE_FILE_LINE cfg \<noteq> 0 then ELOG_FILE_LINE_FMT_setting cfg else [])"

definition ELOG_FILE_LINE_ARGS :: "elog_config \<Rightarrow> 'u call_site \<Rightarrow> 'u token list" where
  "ELOG_FILE_LINE_ARGS cfg site =
     (if ELOG_USE_FILE_LINE cfg \<noteq> 0
      then [Arg (lit (VStr (file_name site))), Comma, Arg (lit (VInt (line site)))]
      else [])"

definition ELOG_COLOR_BEGIN :: "elog_config \<Rightarrow> string \<Rightarrow> string" where
  "ELOG_COLOR_BEGIN cfg color = (if ELOG_USE_COLOR cfg \<noteq> 0 then color else [])"

definition ELOG_COLOR_END :: "elog_config \<Rightarrow> string" where
  "ELOG_COLOR_END cfg = (if ELOG_USE_COLOR cfg \<noteq> 0 then ELOG_COLOR_RESET cfg else [])"

text \<open>
  \<^verbatim>\<open>, ##__VA_ARGS__\<close>: the variadic arguments separated by commas, after a comma
  that is dropped when there are none.
\<close>

fun VA_ARGS :: "'u expr list \<Rightarrow> 'u token list" where
  "VA_ARGS [] = []"
| "VA_ARGS (e # es) = Comma # Arg e # VA_ARGS es"

text \<open>
  The parser accepts an argument list of expressions separated by single commas; an
  empty argument is a syntax error, and the translation unit is rejected.
\<close>

fun parse_args :: "'u token list \<Rightarrow> translation_error + 'u expr list" where
  "parse_args [Arg e] = Inr [e]"
| "parse_args (Arg e # Comma # ts) =
     (case parse_args ts of Inl err \<Rightarrow> Inl err | Inr es \<Rightarrow> Inr (e # es))"
| "parse_args ts = Inl SyntaxError"

text \<open>What a call site is translated to.\<close>

datatype 'u stmt =
    VoidZero
  | Printf string "'u expr list"
  | IfLevel int "'u stmt"

text \<open>
  \<^verbatim>\<open>ELOG_IMPL(level, level_str, color, fmt, ...)\<close>. The format is the concatenation
  of the adjacent string literals; the arguments after it are, in this order,
  \<^verbatim>\<open>ELOG_COLOR_BEGIN(color)\<close>, \<^verbatim>\<open>level_str\<close>, \<^verbatim>\<open>ELOG_FILE_LINE_ARGS\<close>,
  \<^verbatim>\<open>ELOG_COLOR_RESET\<close> and the caller's arguments. With
  \<^verbatim>\<open>ELOG_USE_RUNTIME_LEVEL\<close> the call is guarded by
  \<^verbatim>\<open>(level) <= elog_runtime_level\<close>.
\<close>

definition ELOG_IMPL_format :: "elog_config \<Rightarrow> string \<Rightarrow> string" where
  "ELOG_IMPL_format cfg f = ''%s%s '' @ ELOG_FILE_LINE_FMT cfg @ '' '' @ f @ ''%s\<newline>''"

definition ELOG_IMPL_tokens ::
    "elog_config \<Rightarrow> string \<Rightarrow> string \<Rightarrow> 'u call_site \<Rightarrow> 'u token list" where
  "ELOG_IMPL_tokens cfg level_str color site =
     [Arg (lit (VStr (ELOG_COLOR_BEGIN cfg color))), Comma, Arg (lit (VStr level_str)), Comma]
     @ ELOG_FILE_LINE_ARGS cfg site
     @ [Comma, Arg (lit (VStr (ELOG_COLOR_RESET cfg)))]
     @ VA_ARGS (va_args site)"

definition ELOG_IMPL ::
    "elog_config \<Rightarrow> elog_level_t \<Rightarrow> string \<Rightarrow> string \<Rightarrow> 'u call_site
       \<Rightarrow> translation_error + 'u stmt" where
  "ELOG_IMPL cfg level level_str color site =
     (case parse_args (ELOG_IMPL_tokens cfg level_str color site) of
        Inl err \<Rightarrow> Inl err
      | Inr args \<Rightarrow>
          (if ELOG_USE_RUNTIME_LEVEL cfg \<noteq> 0
           then Inr (IfLevel (enum_value level) (Printf (ELOG_IMPL_format cfg (fmt site)) args))
           else Inr (Printf (ELOG_IMPL_format cfg (fmt site)) args)))"

section \<open>The admission points (elog.h, after ELOG_IMPL)\<close>

text \<open>
  The replacement list of an admission macro: a use of \<^verbatim>\<open>ELOG_IMPL\<close> that spells
  three identifiers (\<^verbatim>\<open>ELOG_LEVEL_x\<close>, \<^verbatim>\<open>ELOG_LEVEL_FMT_y\<close>,
  \<^verbatim>\<open>ELOG_COLOR_z\<close>) and passes the format and the variadic arguments on, or
  \<^verbatim>\<open>((void)0)\<close>.
\<close>

datatype macro_body = IMPL suffix suffix suffix | Void0

text \<open>
  \<^verbatim>\<open>#if ELOG_COMPILED_LEVEL >= ELOG_LEVEL_x\<close>, as the preprocessor evaluates it.
\<close>

definition compiled_in :: "elog_config \<Rightarrow> elog_level_t \<Rightarrow> bool" where
  "compiled_in cfg l = (pp_value (ELOG_COMPILED_LEVEL cfg) \<ge> pp_value (Enumerator l))"

text \<open>
  The ten conditional blocks of the header in source order: CRITICAL, ERROR, WARN, INFO,
  DEBUG, TRACE, and then WARN, INFO, DEBUG, TRACE a second time. Each yields one
  \<^verbatim>\<open>#define\<close> directive.
\<close>

definition admission_blocks :: "elog_config \<Rightarrow> (suffix \<times> macro_body) list" where
  "admission_blocks cfg =
     [ (CRITICAL, if compiled_in cfg ELOG_LEVEL_CRITICAL then IMPL CRITICAL CRITICAL CRITICAL else Void0),
       (ERROR, if compiled_in cfg ELOG_LEVEL_ERROR then IMPL ERROR ERROR ERROR else Void0),
       (WARN, if compiled_in cfg ELOG_LEVEL_WARN then IMPL WARN WARN WARN else Void0),
       (INFO, if compiled_in cfg ELOG_LEVEL_INFO then IMPL INFO INFO INFO else Void0),
       (DEBUG, if compiled_in cfg ELOG_LEVEL_DEBUG then IMPL DEBUG DEBUG DEBUG else Void0),
       (TRACE, if compiled_in cfg ELOG_LEVEL_TRACE then IMPL TRACE TRACE TRACE else Void0),
       (WARN, if compiled_in cfg ELOG_LEVEL_WARN then IMPL WARN WARN WARN else Void0),
       (INFO, if compiled_in cfg ELOG_LEVEL_INFO then IMPL INFO INFO INFO else Void0),
       (DEBUG, if compiled_in cfg ELOG_LEVEL_DEBUG then IMPL DEBUG DEBUG DEBUG else Void0),
       (TRACE, if compiled_in cfg ELOG_LEVEL_TRACE then IMPL TRACE TRACE TRACE else Void0) ]"

text \<open>
  \<^verbatim>\<open>#define\<close>: a new name is entered into the macro table; a name that is already
  defined may be defined again only with the same replacement list, and then nothing
  changes.
\<close>

type_synonym macro_table = "suffix \<Rightarrow> macro_body option"

definition pp_define :: "suffix \<times> macro_body \<Rightarrow> macro_table \<Rightarrow> translation_error + macro_table" where
  "pp_define d tbl =
     (case tbl (fst d) of
        None \<Rightarrow> Inr (tbl(fst d \<mapsto> snd d))
      | Some b \<Rightarrow> if b = snd d then Inr tbl else Inl (Redefined (fst d)))"

fun pp_defines :: "(suffix \<times> macro_body) list \<Rightarrow> macro_table \<Rightarrow> translation_error + macro_table" where
  "pp_defines [] tbl = Inr tbl"
| "pp_defines (d # ds) tbl =
     (case pp_define d tbl of Inl err \<Rightarrow> Inl err | Inr tbl' \<Rightarrow> pp_defines ds tbl')"

definition elog_h :: "elog_config \<Rightarrow> translation_error + macro_table" where
  "elog_h cfg = pp_defines (admission_blocks cfg) Map.empty"

text \<open>
  A header that keeps one definition for each severity: the first six blocks only.
\<close>

definition single_definition_blocks :: "elog_config \<Rightarrow> (suffix \<times> macro_body) list" where
  "single_definition_blocks cfg =
     [ (CRITICAL, if compiled_in cfg ELOG_LEVEL_CRITICAL then IMPL CRITICAL CRITICAL CRITICAL else Void0),
       (ERROR, if compiled_in cfg ELOG_LEVEL_ERROR then IMPL ERROR ERROR ERROR else Void0),
       (WARN, if compiled_in cfg ELOG_LEVEL_WARN then IMPL WARN WARN WARN else Void0),
       (INFO, if compiled_in cfg ELOG_LEVEL_INFO then IMPL INFO INFO INFO else Void0),
       (DEBUG, if compiled_in cfg ELOG_LEVEL_DEBUG then IMPL DEBUG DEBUG DEBUG else Void0),
       (TRACE, if compiled_in cfg ELOG_LEVEL_TRACE then IMPL TRACE TRACE TRACE else Void0) ]"

definition elog_h_single :: "elog_config \<Rightarrow> translation_error + macro_table" where
  "elog_h_single cfg = pp_defines (single_definition_blocks cfg) Map.empty"

text \<open>Expanding a use of a macro whose replacement list is \<open>b\<close> at a call site.\<close>

fun expand :: "elog_config \<Rightarrow> macro_body \<Rightarrow> 'u call_site \<Rightarrow> translation_error + 'u stmt" where
  "expand cfg Void0 site = Inr VoidZero"
| "expand cfg (IMPL x y z) site =
     ELOG_IMPL cfg (ELOG_LEVEL x) (ELOG_LEVEL_FMT cfg y) (ELOG_COLOR cfg z) site"

text \<open>
  Translating the use \<^verbatim>\<open>ELOG_m(fmt, ...)\<close> in a translation unit that includes a
  header whose processing gave \<open>hdr\<close>.
\<close>

definition translate_with ::
    "translation_error + macro_table \<Rightarrow> elog_config \<Rightarrow> suffix \<Rightarrow> 'u call_site
       \<Rightarrow> translation_error + 'u stmt" where
  "translate_with hdr cfg m site =
     (case hdr of
        Inl err \<Rightarrow> Inl err
      | Inr tbl \<Rightarrow> (case tbl m of None \<Rightarrow> Inl (Undefined m) | Some b \<Rightarrow> expand cfg b site))"

definition ELOG :: "elog_config \<Rightarrow> suffix \<Rightarrow> 'u call_site \<Rightarrow> translation_error + 'u stmt" where
  "ELOG cfg m site = translate_with (elog_h cfg) cfg m site"

section \<open>Execution\<close>

text \<open>
  C does not specify the order in which the arguments of a call are evaluated; the
  compiler chooses it. The choice is a parameter of the execution: a list of argument
  positions, evaluated in the order of the list. A position that is out of range or
  has been evaluated already is skipped, and the arguments that the list does not
  mention are evaluated afterwards from left to right, so every list is a complete
  order and every order is some list (the empty list is left to right,
  \<open>[5, 4, 3, 2, 1, 0]\<close> is right to left for six arguments). The values are passed in
  the positions of their expressions whatever the order.
\<close>

type_synonym evaluation_order = "nat list"

fun eval_listed ::
    "nat list \<Rightarrow> 'u expr list \<Rightarrow> val option list \<Rightarrow> 'u state \<Rightarrow> val option list \<times> 'u state" where
  "eval_listed [] es vs s = (vs, s)"
| "eval_listed (i # ord) es vs s =
     (if i < length es \<and> i < length vs \<and> vs ! i = None
      then (case (es ! i) s of (v, s') \<Rightarrow> eval_listed ord es (vs[i := Some v]) s')
      else eval_listed ord es vs s)"

fun collect :: "val option list \<Rightarrow> val list" where
  "collect [] = []"
| "collect (None # vs) = collect vs"
| "collect (Some v # vs) = v # collect vs"

definition eval_args :: "evaluation_order \<Rightarrow> 'u expr list \<Rightarrow> 'u state \<Rightarrow> val list \<times> 'u state" where
  "eval_args ord es s =
     (case eval_listed (ord @ [0..<length es]) es (replicate (length es) None) s of
        (vs, s') \<Rightarrow> (collect vs, s'))"

definition call_printf :: "string \<Rightarrow> val list \<Rightarrow> 'u state \<Rightarrow> 'u state" where
  "call_printf f vs s = s\<lparr>printf_calls := printf_calls s @ [(f, vs)]\<rparr>"

text \<open>
  The guard compares the \<^verbatim>\<open>int\<close> value of the level with the byte after integer
  promotion.
\<close>

definition admitted :: "int \<Rightarrow> 8 word \<Rightarrow> bool" where
  "admitted level t = (level \<le> uint t)"

fun exec :: "evaluation_order \<Rightarrow> 'u stmt \<Rightarrow> 'u state \<Rightarrow> 'u state" where
  "exec ord VoidZero s = s"
| "exec ord (Printf f args) s = (case eval_args ord args s of (vs, s') \<Rightarrow> call_printf f vs s')"
| "exec ord (IfLevel level body) s =
     (if admitted level (elog_runtime_level s) then exec ord body s else s)"

text \<open>
  Running an admission point at a call site: the translation may fail, in which case no
  program exists.
\<close>

definition run ::
    "evaluation_order \<Rightarrow> elog_config \<Rightarrow> suffix \<Rightarrow> 'u call_site \<Rightarrow> 'u state
       \<Rightarrow> translation_error + 'u state" where
  "run ord cfg m site s =
     (case ELOG cfg m site of Inl err \<Rightarrow> Inl err | Inr st \<Rightarrow> Inr (exec ord st s))"

text \<open>An argument expression with a side effect, \<^verbatim>\<open>i++\<close> on an \<^verbatim>\<open>int\<close> in the caller's memory.\<close>

definition post_increment :: "int expr" where
  "post_increment = (\<lambda>s. (VInt (user s), s\<lparr>user := user s + 1\<rparr>))"

section \<open>Auxiliary facts\<close>

lemma compiled_in_pp: "compiled_in cfg l = (0 \<le> pp_value (ELOG_COMPILED_LEVEL cfg))"
  by (simp add: compiled_in_def)

lemma single_table:
  "pp_defines (single_definition_blocks cfg) Map.empty =
     Inr (\<lambda>m. Some (if 0 \<le> pp_value (ELOG_COMPILED_LEVEL cfg) then IMPL m m m else Void0))"
  apply (simp add: single_definition_blocks_def compiled_in_pp pp_define_def)
  apply (intro conjI impI ext)
  subgoal for m by (cases m) simp_all
  subgoal for m by (cases m) simp_all
  done

lemma elog_h_table:
  "elog_h cfg =
     Inr (\<lambda>m. Some (if 0 \<le> pp_value (ELOG_COMPILED_LEVEL cfg) then IMPL m m m else Void0))"
  unfolding elog_h_def
  apply (simp add: admission_blocks_def compiled_in_pp pp_define_def)
  apply (intro conjI impI ext)
  subgoal for m by (cases m) simp_all
  subgoal for m by (cases m) simp_all
  done

lemma ELOG_unfold:
  "ELOG cfg m site =
     (if 0 \<le> pp_value (ELOG_COMPILED_LEVEL cfg)
      then ELOG_IMPL cfg (ELOG_LEVEL m) (ELOG_LEVEL_FMT cfg m) (ELOG_COLOR cfg m) site
      else Inr VoidZero)"
  by (simp add: ELOG_def translate_with_def elog_h_table)

lemma parse_args_VA_ARGS: "parse_args (Arg e # VA_ARGS es) = Inr (e # es)"
  by (induction es arbitrary: e) simp_all

lemma ELOG_IMPL_unfold:
  "ELOG_IMPL cfg level level_str color site =
     (if ELOG_USE_FILE_LINE cfg = 0 then Inl SyntaxError
      else if ELOG_USE_RUNTIME_LEVEL cfg \<noteq> 0
      then Inr (IfLevel (enum_value level) (Printf (ELOG_IMPL_format cfg (fmt site))
             ([lit (VStr (ELOG_COLOR_BEGIN cfg color)), lit (VStr level_str),
               lit (VStr (file_name site)), lit (VInt (line site)),
               lit (VStr (ELOG_COLOR_RESET cfg))] @ va_args site)))
      else Inr (Printf (ELOG_IMPL_format cfg (fmt site))
             ([lit (VStr (ELOG_COLOR_BEGIN cfg color)), lit (VStr level_str),
               lit (VStr (file_name site)), lit (VInt (line site)),
               lit (VStr (ELOG_COLOR_RESET cfg))] @ va_args site)))"
  by (simp add: ELOG_IMPL_def ELOG_IMPL_tokens_def ELOG_FILE_LINE_ARGS_def parse_args_VA_ARGS)

lemma enum_value_ELOG_LEVEL_pos: "1 \<le> enum_value (ELOG_LEVEL m)"
  by (cases m) simp_all

lemma enum_value_ELOG_LEVEL_le: "enum_value (ELOG_LEVEL m) \<le> 6"
  by (cases m) simp_all

lemma lit_apply: "lit v s = (v, s)"
  by (simp add: lit_def)

lemma collect_Some: "collect (map Some ws) = ws"
  by (induction ws) simp_all

lemma eval_listed_length:
  "length (fst (eval_listed ord es vs s)) = length vs"
  by (induction ord arbitrary: vs s) (auto split: prod.splits)

lemma eval_listed_keeps:
  "i < length vs \<Longrightarrow> vs ! i \<noteq> None \<Longrightarrow> fst (eval_listed ord es vs s) ! i = vs ! i"
proof (induction ord arbitrary: vs s)
  case Nil
  then show ?case by simp
next
  case (Cons k ord)
  show ?case
  proof (cases "k < length es \<and> k < length vs \<and> vs ! k = None")
    case True
    obtain v s' where e: "(es ! k) s = (v, s')" by (cases "(es ! k) s")
    from True Cons.prems have ne: "k \<noteq> i" by auto
    have "fst (eval_listed ord es (vs[k := Some v]) s') ! i = (vs[k := Some v]) ! i"
      using Cons.prems ne by (intro Cons.IH) simp_all
    with True e ne show ?thesis by simp
  next
    case False
    with Cons show ?thesis by auto
  qed
qed

lemma eval_listed_covers:
  "i \<in> set ord \<Longrightarrow> i < length es \<Longrightarrow> length vs = length es \<Longrightarrow>
   fst (eval_listed ord es vs s) ! i \<noteq> None"
proof (induction ord arbitrary: vs s)
  case Nil
  then show ?case by simp
next
  case (Cons k ord)
  show ?case
  proof (cases "k < length es \<and> k < length vs \<and> vs ! k = None")
    case True
    obtain v s' where e: "(es ! k) s = (v, s')" by (cases "(es ! k) s")
    have step: "eval_listed (k # ord) es vs s = eval_listed ord es (vs[k := Some v]) s'"
      using True e by simp
    show ?thesis
    proof (cases "i = k")
      case same: True
      have "fst (eval_listed ord es (vs[k := Some v]) s') ! k = (vs[k := Some v]) ! k"
        using True by (intro eval_listed_keeps) simp_all
      with same True show ?thesis unfolding step by simp
    next
      case False
      with Cons.prems have "i \<in> set ord" by simp
      then have "fst (eval_listed ord es (vs[k := Some v]) s') ! i \<noteq> None"
        using Cons.prems by (intro Cons.IH) simp_all
      then show ?thesis unfolding step by simp
    qed
  next
    case False
    then have step: "eval_listed (k # ord) es vs s = eval_listed ord es vs s"
      by auto
    show ?thesis
    proof (cases "i = k")
      case True
      with False Cons.prems have some: "vs ! i \<noteq> None" by auto
      then have "fst (eval_listed ord es vs s) ! i = vs ! i"
        using Cons.prems by (intro eval_listed_keeps) simp_all
      with some show ?thesis unfolding step by simp
    next
      case neq: False
      with Cons.prems have "i \<in> set ord" by simp
      then have "fst (eval_listed ord es vs s) ! i \<noteq> None"
        using Cons.prems by (intro Cons.IH) simp_all
      then show ?thesis unfolding step by simp
    qed
  qed
qed

text \<open>Arguments that keep a component of the state keep it in every order.\<close>

lemma eval_listed_threshold:
  assumes "\<forall>e \<in> set es. \<forall>s. elog_runtime_level (snd (e s)) = elog_runtime_level s"
  shows "elog_runtime_level (snd (eval_listed ord es vs s)) = elog_runtime_level s"
proof (induction ord arbitrary: vs s)
  case Nil
  then show ?case by simp
next
  case (Cons k ord)
  show ?case
  proof (cases "k < length es \<and> k < length vs \<and> vs ! k = None")
    case True
    obtain v s' where e: "(es ! k) s = (v, s')" by (cases "(es ! k) s")
    have step: "eval_listed (k # ord) es vs s = eval_listed ord es (vs[k := Some v]) s'"
      using True e by simp
    from True have "es ! k \<in> set es" by simp
    with assms have "elog_runtime_level (snd ((es ! k) s)) = elog_runtime_level s" by blast
    with e have "elog_runtime_level s' = elog_runtime_level s" by simp
    with Cons.IH [of "vs[k := Some v]" s'] show ?thesis unfolding step by simp
  next
    case False
    then have step: "eval_listed (k # ord) es vs s = eval_listed ord es vs s"
      by auto
    from Cons.IH [of vs s] show ?thesis unfolding step by simp
  qed
qed

lemma eval_args_threshold:
  assumes "\<forall>e \<in> set es. \<forall>s. elog_runtime_level (snd (e s)) = elog_runtime_level s"
  shows "elog_runtime_level (snd (eval_args ord es s)) = elog_runtime_level s"
  using eval_listed_threshold [OF assms, of "ord @ [0..<length es]" "replicate (length es) None" s]
  by (simp add: eval_args_def split_beta)

text \<open>One argument with an effect among literals: the outcome is the same in every order.\<close>

lemma eval_listed_single_effect:
  assumes j: "j < length es"
    and lits: "\<forall>i<length es. i \<noteq> j \<longrightarrow> es ! i = lit (ws ! i)"
    and wj: "ws ! j = fst ((es ! j) s0)"
  shows "length vs = length es \<Longrightarrow>
         \<forall>i<length es. vs ! i = None \<or> vs ! i = Some (ws ! i) \<Longrightarrow>
         (if vs ! j = None then s = s0 else s = snd ((es ! j) s0)) \<Longrightarrow>
         (\<forall>i<length es. fst (eval_listed ord es vs s) ! i = None
              \<or> fst (eval_listed ord es vs s) ! i = Some (ws ! i))
         \<and> (if fst (eval_listed ord es vs s) ! j = None
            then snd (eval_listed ord es vs s) = s0
            else snd (eval_listed ord es vs s) = snd ((es ! j) s0))"
proof (induction ord arbitrary: vs s)
  case Nil
  then show ?case by simp
next
  case (Cons k ord)
  show ?case
  proof (cases "k < length es \<and> k < length vs \<and> vs ! k = None")
    case True
    obtain v s' where e: "(es ! k) s = (v, s')" by (cases "(es ! k) s")
    have step: "eval_listed (k # ord) es vs s = eval_listed ord es (vs[k := Some v]) s'"
      using True e by simp
    have v: "v = ws ! k" and s': "if k = j then s' = snd ((es ! j) s0) else s' = s"
    proof -
      show "v = ws ! k"
      proof (cases "k = j")
        case True
        with Cons.prems(3) \<open>k < length es \<and> k < length vs \<and> vs ! k = None\<close>
        have "s = s0" by simp
        with True e wj show ?thesis by simp
      next
        case False
        with lits True have "es ! k = lit (ws ! k)" by blast
        with e show ?thesis by (simp add: lit_apply)
      qed
      show "if k = j then s' = snd ((es ! j) s0) else s' = s"
      proof (cases "k = j")
        case True
        with Cons.prems(3) \<open>k < length es \<and> k < length vs \<and> vs ! k = None\<close>
        have "s = s0" by simp
        with True e show ?thesis by simp
      next
        case False
        with lits True have "es ! k = lit (ws ! k)" by blast
        with e False show ?thesis by (simp add: lit_apply)
      qed
    qed
    have a: "length (vs[k := Some v]) = length es"
      using Cons.prems(1) by simp
    have b: "\<forall>i<length es. (vs[k := Some v]) ! i = None \<or> (vs[k := Some v]) ! i = Some (ws ! i)"
    proof (intro allI impI)
      fix i
      assume i: "i < length es"
      show "(vs[k := Some v]) ! i = None \<or> (vs[k := Some v]) ! i = Some (ws ! i)"
      proof (cases "i = k")
        case True
        with i Cons.prems(1) v show ?thesis by simp
      next
        case False
        with i Cons.prems(2) show ?thesis by simp
      qed
    qed
    have c: "if (vs[k := Some v]) ! j = None then s' = s0 else s' = snd ((es ! j) s0)"
      using Cons.prems(1,3) True s' j by (auto simp: nth_list_update split: if_splits)
    from Cons.IH [OF a b c] show ?thesis unfolding step .
  next
    case False
    then have step: "eval_listed (k # ord) es vs s = eval_listed ord es vs s"
      by auto
    from Cons.IH [OF Cons.prems] show ?thesis unfolding step .
  qed
qed

lemma eval_listed_covers_all:
  "i < length es \<Longrightarrow>
   fst (eval_listed (ord @ [0..<length es]) es (replicate (length es) None) s) ! i \<noteq> None"
  by (rule eval_listed_covers) simp_all

lemma eval_listed_single_effect_start:
  assumes "j < length es"
    and "\<forall>i<length es. i \<noteq> j \<longrightarrow> es ! i = lit (ws ! i)"
    and "ws ! j = fst ((es ! j) s0)"
  shows "(\<forall>i<length es. fst (eval_listed ord es (replicate (length es) None) s0) ! i = None
              \<or> fst (eval_listed ord es (replicate (length es) None) s0) ! i = Some (ws ! i))
         \<and> (if fst (eval_listed ord es (replicate (length es) None) s0) ! j = None
            then snd (eval_listed ord es (replicate (length es) None) s0) = s0
            else snd (eval_listed ord es (replicate (length es) None) s0) = snd ((es ! j) s0))"
  using assms(1) by (intro eval_listed_single_effect [OF assms]) simp_all

lemma eval_args_single_effect_general:
  assumes j: "j < length es"
    and len: "length ws = length es"
    and lits: "\<forall>i<length es. i \<noteq> j \<longrightarrow> es ! i = lit (ws ! i)"
    and wj: "ws ! j = fst ((es ! j) s)"
  shows "eval_args ord es s = (ws, snd ((es ! j) s))"
proof -
  define r where "r = eval_listed (ord @ [0..<length es]) es (replicate (length es) None) s"
  have inv: "(\<forall>i<length es. fst r ! i = None \<or> fst r ! i = Some (ws ! i))
      \<and> (if fst r ! j = None then snd r = s else snd r = snd ((es ! j) s))"
    unfolding r_def by (rule eval_listed_single_effect_start [OF j lits wj])
  have cov: "\<forall>i<length es. fst r ! i \<noteq> None"
    unfolding r_def by (intro allI impI eval_listed_covers_all)
  have lr: "length (fst r) = length es"
    unfolding r_def by (simp add: eval_listed_length)
  have vals: "fst r = map Some ws"
  proof (rule nth_equalityI)
    show "length (fst r) = length (map Some ws)" using lr len by simp
    fix i assume "i < length (fst r)"
    with lr have i: "i < length es" by simp
    with inv cov have "fst r ! i = Some (ws ! i)" by blast
    with i len show "fst r ! i = map Some ws ! i" by simp
  qed
  from cov j have "fst r ! j \<noteq> None" by blast
  with inv have st: "snd r = snd ((es ! j) s)" by simp
  have "eval_args ord es s = (collect (fst r), snd r)"
    by (simp add: eval_args_def r_def split_beta)
  with vals st show ?thesis by (simp add: collect_Some)
qed

lemma eval_args_single_effect:
  "eval_args ord (map lit as @ f # map lit bs) s = (as @ fst (f s) # bs, snd (f s))"
proof -
  have "eval_args ord (map lit as @ f # map lit bs) s
      = (as @ fst (f s) # bs, snd (((map lit as @ f # map lit bs) ! length as) s))"
    by (rule eval_args_single_effect_general) (auto simp: nth_append nth_Cons')
  then show ?thesis by (simp add: nth_append)
qed

lemma eval_args_literals:
  "eval_args ord [lit a, lit b, lit c, lit d, lit e] s = ([a, b, c, d, e], s)"
  using eval_args_single_effect [of ord "[a, b, c, d]" "lit e" "[]" s]
  by (simp add: lit_apply)

lemma eval_args_literals_and_one:
  "eval_args ord [lit a, lit b, lit c, lit d, lit e, f] s = ([a, b, c, d, e, fst (f s)], snd (f s))"
  using eval_args_single_effect [of ord "[a, b, c, d, e]" f "[]" s]
  by simp

text \<open>
  The order is observable: for \<^verbatim>\<open>f(i++, i++)\<close> with \<open>i = 0\<close>, left to right
  passes 0 and 1, right to left passes 1 and 0.
\<close>

lemma evaluation_order_is_observable:
  "eval_args [] [post_increment, post_increment] \<lparr> elog_runtime_level = 4, printf_calls = [], user = 0 \<rparr>
     = ([VInt 0, VInt 1], \<lparr> elog_runtime_level = 4, printf_calls = [], user = 2 \<rparr>)
   \<and> eval_args [1, 0] [post_increment, post_increment] \<lparr> elog_runtime_level = 4, printf_calls = [], user = 0 \<rparr>
     = ([VInt 1, VInt 0], \<lparr> elog_runtime_level = 4, printf_calls = [], user = 2 \<rparr>)"
  by (simp add: eval_args_def post_increment_def upt_rec)

text \<open>A retained call site that translates is the guarded (or bare) \<^verbatim>\<open>printf\<close> call.\<close>

lemma ELOG_Inr_cases:
  assumes "ELOG cfg m site = Inr st"
  shows "st = VoidZero
       \<or> st = (if ELOG_USE_RUNTIME_LEVEL cfg \<noteq> 0
               then IfLevel (enum_value (ELOG_LEVEL m)) (Printf (ELOG_IMPL_format cfg (fmt site))
                      ([lit (VStr (ELOG_COLOR_BEGIN cfg (ELOG_COLOR cfg m))), lit (VStr (ELOG_LEVEL_FMT cfg m)),
                        lit (VStr (file_name site)), lit (VInt (line site)),
                        lit (VStr (ELOG_COLOR_RESET cfg))] @ va_args site))
               else Printf (ELOG_IMPL_format cfg (fmt site))
                      ([lit (VStr (ELOG_COLOR_BEGIN cfg (ELOG_COLOR cfg m))), lit (VStr (ELOG_LEVEL_FMT cfg m)),
                        lit (VStr (file_name site)), lit (VInt (line site)),
                        lit (VStr (ELOG_COLOR_RESET cfg))] @ va_args site))"
  using assms by (auto simp: ELOG_unfold ELOG_IMPL_unfold split: if_splits)

lemma exec_ELOG_cases:
  assumes "ELOG cfg m site = Inr st"
  shows "exec ord st s = s
       \<or> exec ord st s =
           (case eval_args ord
                   ([lit (VStr (ELOG_COLOR_BEGIN cfg (ELOG_COLOR cfg m))), lit (VStr (ELOG_LEVEL_FMT cfg m)),
                     lit (VStr (file_name site)), lit (VInt (line site)),
                     lit (VStr (ELOG_COLOR_RESET cfg))] @ va_args site) s of
              (vs, s') \<Rightarrow> call_printf (ELOG_IMPL_format cfg (fmt site)) vs s')"
  using ELOG_Inr_cases [OF assms] by (auto split: if_splits)

lemmas evaluation =
  run_def ELOG_unfold ELOG_IMPL_unfold default_config_def program_start_def elog_c_def
  admitted_def lit_apply call_printf_def ELOG_IMPL_format_def ELOG_FILE_LINE_FMT_def
  ELOG_COLOR_BEGIN_def eval_args_literals eval_args_literals_and_one

lemma decimal_digit: "n < 10 \<Longrightarrow> decimal n = [digit n]"
  by (simp add: decimal.simps)

lemma decimal_step: "10 \<le> n \<Longrightarrow> decimal n = decimal (n div 10) @ [digit (n mod 10)]"
  by (subst decimal.simps) simp

lemmas rendering = emit_def show_int_def digit_def decimal_digit decimal_step

section \<open>Compile-time selection\<close>

text \<open>
  C1. The claim: an admission point whose severity is above \<^verbatim>\<open>ELOG_COMPILED_LEVEL\<close>
  is a no-op, it writes nothing and evaluates none of its arguments, whatever the
  run-time threshold. The header does not do this. With the default configuration
  (compiled level INFO) the condition \<^verbatim>\<open>#if ELOG_COMPILED_LEVEL >= ELOG_LEVEL_DEBUG\<close>
  is evaluated by the preprocessor as \<open>0 \<ge> 0\<close> and \<^verbatim>\<open>ELOG_DEBUG\<close> is retained.
  Once user code has set the threshold to TRACE, \<^verbatim>\<open>ELOG_DEBUG("x")\<close> at main.c:42
  calls \<^verbatim>\<open>printf\<close> and a line is written, and \<^verbatim>\<open>ELOG_DEBUG("x=%d", i++)\<close>
  increments \<open>i\<close>, in whatever order the compiler evaluates the arguments.
\<close>

theorem DEBUG_above_compiled_level_still_emits:
  "c_value (ELOG_COMPILED_LEVEL default_config) < enum_value (ELOG_LEVEL DEBUG)
   \<and> compiled_in default_config (ELOG_LEVEL DEBUG)
   \<and> (\<forall>ord. run ord default_config DEBUG
        \<lparr> file_name = ''main.c'', line = 42, fmt = ''x'', va_args = [] \<rparr>
        ((program_start default_config (0::int))\<lparr>elog_runtime_level := 6\<rparr>)
      = Inr \<lparr> elog_runtime_level = 6,
              printf_calls =
                [(''%s%s [%s: %d] x%s\<newline>'',
                  [VStr (CHR 0x1B # ''[1;36m''), VStr ''[DEBUG]'', VStr ''main.c'', VInt 42,
                   VStr (CHR 0x1B # ''[0m'')])],
              user = 0 \<rparr>)
   \<and> stdout_text
        [(''%s%s [%s: %d] x%s\<newline>'',
          [VStr (CHR 0x1B # ''[1;36m''), VStr ''[DEBUG]'', VStr ''main.c'', VInt 42,
           VStr (CHR 0x1B # ''[0m'')])]
      = Inr (CHR 0x1B # ''[1;36m[DEBUG] [main.c: 42] x'' @ CHR 0x1B # ''[0m\<newline>'')
   \<and> (\<forall>ord. run ord default_config DEBUG
        \<lparr> file_name = ''main.c'', line = 42, fmt = ''x=%d'', va_args = [post_increment] \<rparr>
        ((program_start default_config (0::int))\<lparr>elog_runtime_level := 6\<rparr>)
      = Inr \<lparr> elog_runtime_level = 6,
              printf_calls =
                [(''%s%s [%s: %d] x=%d%s\<newline>'',
                  [VStr (CHR 0x1B # ''[1;36m''), VStr ''[DEBUG]'', VStr ''main.c'', VInt 42,
                   VStr (CHR 0x1B # ''[0m''), VInt 0])],
              user = 1 \<rparr>)"
proof (intro conjI)
  show "c_value (ELOG_COMPILED_LEVEL default_config) < enum_value (ELOG_LEVEL DEBUG)"
    by (simp add: default_config_def)
  show "compiled_in default_config (ELOG_LEVEL DEBUG)"
    by (simp add: compiled_in_def default_config_def)
  show "(\<forall>ord. run ord default_config DEBUG
        \<lparr> file_name = ''main.c'', line = 42, fmt = ''x'', va_args = [] \<rparr>
        ((program_start default_config (0::int))\<lparr>elog_runtime_level := 6\<rparr>)
      = Inr \<lparr> elog_runtime_level = 6,
              printf_calls =
                [(''%s%s [%s: %d] x%s\<newline>'',
                  [VStr (CHR 0x1B # ''[1;36m''), VStr ''[DEBUG]'', VStr ''main.c'', VInt 42,
                   VStr (CHR 0x1B # ''[0m'')])],
              user = 0 \<rparr>)"
    by (simp add: evaluation)
  show "stdout_text
        [(''%s%s [%s: %d] x%s\<newline>'',
          [VStr (CHR 0x1B # ''[1;36m''), VStr ''[DEBUG]'', VStr ''main.c'', VInt 42,
           VStr (CHR 0x1B # ''[0m'')])]
      = Inr (CHR 0x1B # ''[1;36m[DEBUG] [main.c: 42] x'' @ CHR 0x1B # ''[0m\<newline>'')"
    by (simp add: rendering)
  show "(\<forall>ord. run ord default_config DEBUG
        \<lparr> file_name = ''main.c'', line = 42, fmt = ''x=%d'', va_args = [post_increment] \<rparr>
        ((program_start default_config (0::int))\<lparr>elog_runtime_level := 6\<rparr>)
      = Inr \<lparr> elog_runtime_level = 6,
              printf_calls =
                [(''%s%s [%s: %d] x=%d%s\<newline>'',
                  [VStr (CHR 0x1B # ''[1;36m''), VStr ''[DEBUG]'', VStr ''main.c'', VInt 42,
                   VStr (CHR 0x1B # ''[0m''), VInt 0])],
              user = 1 \<rparr>)"
    by (simp add: evaluation post_increment_def)
qed

section \<open>The run-time check\<close>

text \<open>
  C2. The claim: for a retained call site of severity \<open>L\<close> (\<open>L \<le> COMPILED_LEVEL\<close>),
  an invocation writes exactly one line, in one call of the output primitive, when the
  threshold is at least \<open>L\<close>, and nothing when it is below. The second half holds
  (C10). The first does not for a call site that passes arguments: with the default
  configuration and the threshold at its initial value, \<^verbatim>\<open>ELOG_WARN("retry %d", 3)\<close>
  at main.c:10 is retained and admitted and makes its one call, but the call is
  \<^verbatim>\<open>printf("%s%s [%s: %d] retry %d%s\n", "\033[1;33m", "[WARN]", "main.c", 10, "\033[0m", 3)\<close>,
  whose arguments do not match its format, so no line is written. It is the slip in
  the argument order of \<^verbatim>\<open>ELOG_IMPL\<close> that C3 shows.
\<close>

theorem admitted_WARN_with_argument_writes_no_line:
  "ELOG_USE_RUNTIME_LEVEL default_config \<noteq> 0
   \<and> enum_value (ELOG_LEVEL WARN) \<le> c_value (ELOG_COMPILED_LEVEL default_config)
   \<and> enum_value (ELOG_LEVEL WARN) \<le> uint (elog_runtime_level (program_start default_config ()))
   \<and> (\<forall>ord. run ord default_config WARN
        \<lparr> file_name = ''main.c'', line = 10, fmt = ''retry %d'', va_args = [lit (VInt 3)] \<rparr>
        (program_start default_config ())
      = Inr \<lparr> elog_runtime_level = 4,
              printf_calls =
                [(''%s%s [%s: %d] retry %d%s\<newline>'',
                  [VStr (CHR 0x1B # ''[1;33m''), VStr ''[WARN]'', VStr ''main.c'', VInt 10,
                   VStr (CHR 0x1B # ''[0m''), VInt 3])],
              user = () \<rparr>)
   \<and> printf_text ''%s%s [%s: %d] retry %d%s\<newline>''
        [VStr (CHR 0x1B # ''[1;33m''), VStr ''[WARN]'', VStr ''main.c'', VInt 10,
         VStr (CHR 0x1B # ''[0m''), VInt 3]
      = Inl TypeMismatch
   \<and> stdout_text
        [(''%s%s [%s: %d] retry %d%s\<newline>'',
          [VStr (CHR 0x1B # ''[1;33m''), VStr ''[WARN]'', VStr ''main.c'', VInt 10,
           VStr (CHR 0x1B # ''[0m''), VInt 3])]
      = Inl TypeMismatch"
proof (intro conjI)
  show "ELOG_USE_RUNTIME_LEVEL default_config \<noteq> 0"
    by (simp add: default_config_def)
  show "enum_value (ELOG_LEVEL WARN) \<le> c_value (ELOG_COMPILED_LEVEL default_config)"
    by (simp add: default_config_def)
  show "enum_value (ELOG_LEVEL WARN) \<le> uint (elog_runtime_level (program_start default_config ()))"
    by (simp add: default_config_def program_start_def elog_c_def)
  show "\<forall>ord. run ord default_config WARN
        \<lparr> file_name = ''main.c'', line = 10, fmt = ''retry %d'', va_args = [lit (VInt 3)] \<rparr>
        (program_start default_config ())
      = Inr \<lparr> elog_runtime_level = 4,
              printf_calls =
                [(''%s%s [%s: %d] retry %d%s\<newline>'',
                  [VStr (CHR 0x1B # ''[1;33m''), VStr ''[WARN]'', VStr ''main.c'', VInt 10,
                   VStr (CHR 0x1B # ''[0m''), VInt 3])],
              user = () \<rparr>"
    by (simp add: evaluation)
  show "printf_text ''%s%s [%s: %d] retry %d%s\<newline>''
        [VStr (CHR 0x1B # ''[1;33m''), VStr ''[WARN]'', VStr ''main.c'', VInt 10,
         VStr (CHR 0x1B # ''[0m''), VInt 3]
      = Inl TypeMismatch"
    by (simp add: rendering)
  show "stdout_text
        [(''%s%s [%s: %d] retry %d%s\<newline>'',
          [VStr (CHR 0x1B # ''[1;33m''), VStr ''[WARN]'', VStr ''main.c'', VInt 10,
           VStr (CHR 0x1B # ''[0m''), VInt 3])]
      = Inl TypeMismatch"
    by (simp add: rendering)
qed

section \<open>The line format\<close>

text \<open>
  C3. The claim: with the default configuration, \<^verbatim>\<open>ELOG_INFO("hello %d", 7)\<close> at
  main.c:42 writes the colour prefix, \<^verbatim>\<open>[INFO] [main.c: 42] hello 7\<close>, the reset
  and a newline, in one call. The call that the header makes is
  \<^verbatim>\<open>printf("%s%s [%s: %d] hello %d%s\n", "\033[1;32m", "[INFO]", "main.c", 42, "\033[0m", 7)\<close>:
  \<^verbatim>\<open>ELOG_COLOR_RESET\<close> is passed before the caller's arguments although its
  \<^verbatim>\<open>%s\<close> comes after the caller's format, so \<^verbatim>\<open>%d\<close> receives the reset
  string and the final \<^verbatim>\<open>%s\<close> receives 7. The text of that call is undefined,
  not the line of the claim.
\<close>

theorem INFO_hello_passes_reset_before_arguments:
  "(\<forall>ord. run ord default_config INFO
     \<lparr> file_name = ''main.c'', line = 42, fmt = ''hello %d'', va_args = [lit (VInt 7)] \<rparr>
     (program_start default_config ())
   = Inr \<lparr> elog_runtime_level = 4,
           printf_calls =
             [(''%s%s [%s: %d] hello %d%s\<newline>'',
               [VStr (CHR 0x1B # ''[1;32m''), VStr ''[INFO]'', VStr ''main.c'', VInt 42,
                VStr (CHR 0x1B # ''[0m''), VInt 7])],
           user = () \<rparr>)
   \<and> stdout_text
        [(''%s%s [%s: %d] hello %d%s\<newline>'',
          [VStr (CHR 0x1B # ''[1;32m''), VStr ''[INFO]'', VStr ''main.c'', VInt 42,
           VStr (CHR 0x1B # ''[0m''), VInt 7])]
      = Inl TypeMismatch
   \<and> stdout_text
        [(''%s%s [%s: %d] hello %d%s\<newline>'',
          [VStr (CHR 0x1B # ''[1;32m''), VStr ''[INFO]'', VStr ''main.c'', VInt 42,
           VInt 7, VStr (CHR 0x1B # ''[0m'')])]
      = Inr (CHR 0x1B # ''[1;32m[INFO] [main.c: 42] hello 7'' @ CHR 0x1B # ''[0m\<newline>'')"
proof (intro conjI)
  show "(\<forall>ord. run ord default_config INFO
     \<lparr> file_name = ''main.c'', line = 42, fmt = ''hello %d'', va_args = [lit (VInt 7)] \<rparr>
     (program_start default_config ())
   = Inr \<lparr> elog_runtime_level = 4,
           printf_calls =
             [(''%s%s [%s: %d] hello %d%s\<newline>'',
               [VStr (CHR 0x1B # ''[1;32m''), VStr ''[INFO]'', VStr ''main.c'', VInt 42,
                VStr (CHR 0x1B # ''[0m''), VInt 7])],
           user = () \<rparr>)"
    by (simp add: evaluation)
  show "stdout_text
        [(''%s%s [%s: %d] hello %d%s\<newline>'',
          [VStr (CHR 0x1B # ''[1;32m''), VStr ''[INFO]'', VStr ''main.c'', VInt 42,
           VStr (CHR 0x1B # ''[0m''), VInt 7])]
      = Inl TypeMismatch"
    by (simp add: rendering)
  show "stdout_text
        [(''%s%s [%s: %d] hello %d%s\<newline>'',
          [VStr (CHR 0x1B # ''[1;32m''), VStr ''[INFO]'', VStr ''main.c'', VInt 42,
           VInt 7, VStr (CHR 0x1B # ''[0m'')])]
      = Inr (CHR 0x1B # ''[1;32m[INFO] [main.c: 42] hello 7'' @ CHR 0x1B # ''[0m\<newline>'')"
    by (simp add: rendering)
qed

text \<open>
  C4. The claim: with \<^verbatim>\<open>ELOG_USE_COLOR\<close> set to 0 both colour segments are empty
  and \<^verbatim>\<open>ELOG_WARN("bad")\<close> at main.c:10 writes \<^verbatim>\<open>[WARN] [main.c: 10] bad\<close> and
  a newline. The header empties the prefix (\<^verbatim>\<open>ELOG_COLOR_BEGIN\<close>) and defines
  \<^verbatim>\<open>ELOG_COLOR_END\<close> as the empty string, but \<^verbatim>\<open>ELOG_IMPL\<close> passes
  \<^verbatim>\<open>ELOG_COLOR_RESET\<close> instead of \<^verbatim>\<open>ELOG_COLOR_END\<close>: the reset escape is
  written before the newline.
\<close>

theorem WARN_without_color_still_writes_reset:
  "(\<forall>ord. run ord (default_config\<lparr>ELOG_USE_COLOR := 0\<rparr>) WARN
     \<lparr> file_name = ''main.c'', line = 10, fmt = ''bad'', va_args = [] \<rparr>
     (program_start (default_config\<lparr>ELOG_USE_COLOR := 0\<rparr>) ())
   = Inr \<lparr> elog_runtime_level = 4,
           printf_calls =
             [(''%s%s [%s: %d] bad%s\<newline>'',
               [VStr [], VStr ''[WARN]'', VStr ''main.c'', VInt 10, VStr (CHR 0x1B # ''[0m'')])],
           user = () \<rparr>)
   \<and> stdout_text
        [(''%s%s [%s: %d] bad%s\<newline>'',
          [VStr [], VStr ''[WARN]'', VStr ''main.c'', VInt 10, VStr (CHR 0x1B # ''[0m'')])]
      = Inr (''[WARN] [main.c: 10] bad'' @ CHR 0x1B # ''[0m\<newline>'')
   \<and> ''[WARN] [main.c: 10] bad'' @ CHR 0x1B # ''[0m\<newline>'' \<noteq> ''[WARN] [main.c: 10] bad\<newline>''
   \<and> ELOG_COLOR_END (default_config\<lparr>ELOG_USE_COLOR := 0\<rparr>) = []"
proof (intro conjI)
  show "(\<forall>ord. run ord (default_config\<lparr>ELOG_USE_COLOR := 0\<rparr>) WARN
     \<lparr> file_name = ''main.c'', line = 10, fmt = ''bad'', va_args = [] \<rparr>
     (program_start (default_config\<lparr>ELOG_USE_COLOR := 0\<rparr>) ())
   = Inr \<lparr> elog_runtime_level = 4,
           printf_calls =
             [(''%s%s [%s: %d] bad%s\<newline>'',
               [VStr [], VStr ''[WARN]'', VStr ''main.c'', VInt 10, VStr (CHR 0x1B # ''[0m'')])],
           user = () \<rparr>)"
    by (simp add: evaluation)
  show "stdout_text
        [(''%s%s [%s: %d] bad%s\<newline>'',
          [VStr [], VStr ''[WARN]'', VStr ''main.c'', VInt 10, VStr (CHR 0x1B # ''[0m'')])]
      = Inr (''[WARN] [main.c: 10] bad'' @ CHR 0x1B # ''[0m\<newline>'')"
    by (simp add: rendering)
  show "''[WARN] [main.c: 10] bad'' @ CHR 0x1B # ''[0m\<newline>'' \<noteq> ''[WARN] [main.c: 10] bad\<newline>''"
    by simp
  show "ELOG_COLOR_END (default_config\<lparr>ELOG_USE_COLOR := 0\<rparr>) = []"
    by (simp add: ELOG_COLOR_END_def default_config_def)
qed

text \<open>
  C8. The claim: with \<^verbatim>\<open>ELOG_USE_FILE_LINE\<close> set to 0 the bracket is left out and
  \<^verbatim>\<open>ELOG_ERROR("e")\<close> writes the colour prefix, \<^verbatim>\<open>[ERROR]\<close>, two spaces,
  \<^verbatim>\<open>e\<close>, the reset and a newline. The format string of the header is the one the
  claim needs, \<^verbatim>\<open>"%s%s  e%s\n"\<close>, but \<^verbatim>\<open>ELOG_FILE_LINE_ARGS\<close> is then empty
  and stands between two commas of the argument list:
  \<^verbatim>\<open>printf("%s%s  e%s\n", "\033[1;31m", "[ERROR]", , "\033[0m")\<close>. The call is not
  a C expression, the call site does not translate and nothing can be written.
\<close>

theorem ERROR_without_file_line_is_rejected:
  "ELOG_IMPL_format (default_config\<lparr>ELOG_USE_FILE_LINE := 0\<rparr>) ''e'' = ''%s%s  e%s\<newline>''
   \<and> ELOG_IMPL_tokens (default_config\<lparr>ELOG_USE_FILE_LINE := 0\<rparr>) ''[ERROR]'' (CHR 0x1B # ''[1;31m'')
        (\<lparr> file_name = ''main.c'', line = 42, fmt = ''e'', va_args = [] \<rparr> :: unit call_site)
      = [Arg (lit (VStr (CHR 0x1B # ''[1;31m''))), Comma, Arg (lit (VStr ''[ERROR]'')), Comma,
         Comma, Arg (lit (VStr (CHR 0x1B # ''[0m'')))]
   \<and> ELOG (default_config\<lparr>ELOG_USE_FILE_LINE := 0\<rparr>) ERROR
        (\<lparr> file_name = ''main.c'', line = 42, fmt = ''e'', va_args = [] \<rparr> :: unit call_site)
      = Inl SyntaxError
   \<and> (\<forall>ord. run ord (default_config\<lparr>ELOG_USE_FILE_LINE := 0\<rparr>) ERROR
        \<lparr> file_name = ''main.c'', line = 42, fmt = ''e'', va_args = [] \<rparr>
        (program_start (default_config\<lparr>ELOG_USE_FILE_LINE := 0\<rparr>) ())
      = Inl SyntaxError)"
proof (intro conjI)
  show "ELOG_IMPL_format (default_config\<lparr>ELOG_USE_FILE_LINE := 0\<rparr>) ''e'' = ''%s%s  e%s\<newline>''"
    by (simp add: ELOG_IMPL_format_def ELOG_FILE_LINE_FMT_def default_config_def)
  show "ELOG_IMPL_tokens (default_config\<lparr>ELOG_USE_FILE_LINE := 0\<rparr>) ''[ERROR]'' (CHR 0x1B # ''[1;31m'')
        (\<lparr> file_name = ''main.c'', line = 42, fmt = ''e'', va_args = [] \<rparr> :: unit call_site)
      = [Arg (lit (VStr (CHR 0x1B # ''[1;31m''))), Comma, Arg (lit (VStr ''[ERROR]'')), Comma,
         Comma, Arg (lit (VStr (CHR 0x1B # ''[0m'')))]"
    by (simp add: ELOG_IMPL_tokens_def ELOG_FILE_LINE_ARGS_def ELOG_COLOR_BEGIN_def default_config_def)
  show "ELOG (default_config\<lparr>ELOG_USE_FILE_LINE := 0\<rparr>) ERROR
        (\<lparr> file_name = ''main.c'', line = 42, fmt = ''e'', va_args = [] \<rparr> :: unit call_site)
      = Inl SyntaxError"
    by (simp add: ELOG_unfold ELOG_IMPL_unfold default_config_def)
  show "\<forall>ord. run ord (default_config\<lparr>ELOG_USE_FILE_LINE := 0\<rparr>) ERROR
        \<lparr> file_name = ''main.c'', line = 42, fmt = ''e'', va_args = [] \<rparr>
        (program_start (default_config\<lparr>ELOG_USE_FILE_LINE := 0\<rparr>) ())
      = Inl SyntaxError"
    by (simp add: run_def ELOG_unfold ELOG_IMPL_unfold default_config_def)
qed

section \<open>The run-time threshold\<close>

text \<open>
  C5. With the run-time level feature on, the threshold is one byte; elog.c
  initialises it with \<^verbatim>\<open>ELOG_COMPILED_LEVEL\<close>, so at program start it holds the
  value of the compiled level (the value of INFO, 4, by default); and an invocation of
  an admission point whose own argument expressions do not write the threshold leaves
  it as it was: emission reads it and never writes it.
\<close>

theorem runtime_threshold_lifecycle:
  assumes "ELOG_USE_RUNTIME_LEVEL cfg \<noteq> 0"
  shows "elog_c cfg = Some (word_of_int (c_value (ELOG_COMPILED_LEVEL cfg)))
       \<and> elog_runtime_level (program_start cfg u) = word_of_int (c_value (ELOG_COMPILED_LEVEL cfg))
       \<and> (ELOG_COMPILED_LEVEL cfg = Enumerator l \<longrightarrow>
            uint (elog_runtime_level (program_start cfg u)) = enum_value l)
       \<and> (ELOG cfg m site = Inr st \<longrightarrow>
            (\<forall>e \<in> set (va_args site). \<forall>s'. elog_runtime_level (snd (e s')) = elog_runtime_level s') \<longrightarrow>
            elog_runtime_level (exec ord st s) = elog_runtime_level s)"
proof -
  have c: "elog_c cfg = Some (word_of_int (c_value (ELOG_COMPILED_LEVEL cfg)))"
    using assms by (simp add: elog_c_def)
  have p: "elog_runtime_level (program_start cfg u) = word_of_int (c_value (ELOG_COMPILED_LEVEL cfg))"
    by (simp add: program_start_def c)
  have v: "ELOG_COMPILED_LEVEL cfg = Enumerator l \<Longrightarrow>
      uint (elog_runtime_level (program_start cfg u)) = enum_value l"
    unfolding p by (cases l) simp_all
  have k: "ELOG cfg m site = Inr st \<Longrightarrow>
      \<forall>e \<in> set (va_args site). \<forall>s'. elog_runtime_level (snd (e s')) = elog_runtime_level s' \<Longrightarrow>
      elog_runtime_level (exec ord st s) = elog_runtime_level s"
  proof -
    assume tr: "ELOG cfg m site = Inr st"
      and pure: "\<forall>e \<in> set (va_args site). \<forall>s'. elog_runtime_level (snd (e s')) = elog_runtime_level s'"
    define args where "args =
      [lit (VStr (ELOG_COLOR_BEGIN cfg (ELOG_COLOR cfg m))), lit (VStr (ELOG_LEVEL_FMT cfg m)),
       lit (VStr (file_name site)), lit (VInt (line site)),
       lit (VStr (ELOG_COLOR_RESET cfg))] @ va_args site"
    have every: "\<forall>e \<in> set args. \<forall>s'. elog_runtime_level (snd (e s')) = elog_runtime_level s'"
      unfolding args_def using pure by (simp add: lit_apply)
    obtain vs s1 where ev: "eval_args ord args s = (vs, s1)"
      by (cases "eval_args ord args s")
    have s1: "elog_runtime_level s1 = elog_runtime_level s"
      using eval_args_threshold [OF every, of ord s] ev by simp
    from exec_ELOG_cases [OF tr, of ord s]
    have "exec ord st s = s \<or> exec ord st s = call_printf (ELOG_IMPL_format cfg (fmt site)) vs s1"
      unfolding args_def [symmetric] ev by simp
    then show ?thesis
      using s1 by (auto simp: call_printf_def)
  qed
  from c p v k show ?thesis by blast
qed

theorem runtime_threshold_lifecycle_witness:
  "ELOG_USE_RUNTIME_LEVEL default_config \<noteq> 0
   \<and> elog_c default_config = Some 4
   \<and> ELOG_COMPILED_LEVEL default_config = Enumerator ELOG_LEVEL_INFO
   \<and> uint (elog_runtime_level (program_start default_config (0::int))) = enum_value ELOG_LEVEL_INFO
   \<and> ELOG default_config INFO
        \<lparr> file_name = ''main.c'', line = 42, fmt = ''n=%d'', va_args = [post_increment] \<rparr>
      = Inr (IfLevel 4 (Printf ''%s%s [%s: %d] n=%d%s\<newline>''
            [lit (VStr (CHR 0x1B # ''[1;32m'')), lit (VStr ''[INFO]''), lit (VStr ''main.c''),
             lit (VInt 42), lit (VStr (CHR 0x1B # ''[0m'')), post_increment]))
   \<and> elog_runtime_level (exec [5, 4, 3, 2, 1, 0] (IfLevel 4 (Printf ''%s%s [%s: %d] n=%d%s\<newline>''
            [lit (VStr (CHR 0x1B # ''[1;32m'')), lit (VStr ''[INFO]''), lit (VStr ''main.c''),
             lit (VInt 42), lit (VStr (CHR 0x1B # ''[0m'')), post_increment]))
         (program_start default_config 0)) = 4"
proof -
  let ?site = "\<lparr> file_name = ''main.c'', line = 42, fmt = ''n=%d'', va_args = [post_increment] \<rparr>"
  let ?st = "IfLevel 4 (Printf ''%s%s [%s: %d] n=%d%s\<newline>''
            [lit (VStr (CHR 0x1B # ''[1;32m'')), lit (VStr ''[INFO]''), lit (VStr ''main.c''),
             lit (VInt 42), lit (VStr (CHR 0x1B # ''[0m'')), post_increment])"
  have h1: "ELOG_USE_RUNTIME_LEVEL default_config \<noteq> 0"
    by (simp add: default_config_def)
  have h2: "ELOG_COMPILED_LEVEL default_config = Enumerator ELOG_LEVEL_INFO"
    by (simp add: default_config_def)
  have h3: "ELOG default_config INFO ?site = Inr ?st"
    by (simp add: ELOG_unfold ELOG_IMPL_unfold default_config_def ELOG_IMPL_format_def
        ELOG_FILE_LINE_FMT_def ELOG_COLOR_BEGIN_def)
  have h4: "\<forall>e \<in> set (va_args ?site). \<forall>s'. elog_runtime_level (snd (e s')) = elog_runtime_level s'"
    by (simp add: post_increment_def)
  note t = runtime_threshold_lifecycle [OF h1, of "0::int" ELOG_LEVEL_INFO INFO ?site ?st
      "[5, 4, 3, 2, 1, 0]" "program_start default_config 0"]
  have a: "elog_c default_config = Some 4"
    using t by (simp add: default_config_def)
  have b: "uint (elog_runtime_level (program_start default_config (0::int))) = enum_value ELOG_LEVEL_INFO"
    using t h2 by blast
  have "elog_runtime_level (exec [5, 4, 3, 2, 1, 0] ?st (program_start default_config 0))
      = elog_runtime_level (program_start default_config (0::int))"
    using t h3 h4 by blast
  also have "\<dots> = 4"
    by (simp add: program_start_def a)
  finally have c: "elog_runtime_level (exec [5, 4, 3, 2, 1, 0] ?st (program_start default_config 0)) = 4" .
  show ?thesis by (intro conjI h1 h2 h3 a b c)
qed

text \<open>
  C6. With the run-time level feature on, in any configuration (any compiled level)
  and for any of the six admission points: while the threshold byte holds OFF, an
  invocation of a call site leaves the state as it was; no call of \<^verbatim>\<open>printf\<close> is
  made.
\<close>

theorem threshold_OFF_suppresses_every_emission:
  assumes "ELOG_USE_RUNTIME_LEVEL cfg \<noteq> 0"
    and "ELOG cfg m site = Inr st"
    and "elog_runtime_level s = word_of_int (enum_value ELOG_LEVEL_OFF)"
  shows "exec ord st s = s \<and> printf_calls (exec ord st s) = printf_calls s"
proof -
  have "\<not> admitted (enum_value (ELOG_LEVEL m)) (elog_runtime_level s)"
    using enum_value_ELOG_LEVEL_pos [of m] assms(3) by (simp add: admitted_def)
  with ELOG_Inr_cases [OF assms(2)] assms(1) have "exec ord st s = s"
    by auto
  then show ?thesis by simp
qed

theorem threshold_OFF_suppresses_every_emission_witness:
  "ELOG_USE_RUNTIME_LEVEL (default_config\<lparr>ELOG_COMPILED_LEVEL := Enumerator ELOG_LEVEL_TRACE\<rparr>) \<noteq> 0
   \<and> ELOG (default_config\<lparr>ELOG_COMPILED_LEVEL := Enumerator ELOG_LEVEL_TRACE\<rparr>) CRITICAL
        \<lparr> file_name = ''main.c'', line = 42, fmt = ''n=%d'', va_args = [post_increment] \<rparr>
      = Inr (IfLevel 1 (Printf ''%s%s [%s: %d] n=%d%s\<newline>''
            [lit (VStr (CHR 0x1B # ''[1;35m'')), lit (VStr ''[CRITICAL]''), lit (VStr ''main.c''),
             lit (VInt 42), lit (VStr (CHR 0x1B # ''[0m'')), post_increment]))
   \<and> exec [5, 4, 3, 2, 1, 0] (IfLevel 1 (Printf ''%s%s [%s: %d] n=%d%s\<newline>''
            [lit (VStr (CHR 0x1B # ''[1;35m'')), lit (VStr ''[CRITICAL]''), lit (VStr ''main.c''),
             lit (VInt 42), lit (VStr (CHR 0x1B # ''[0m'')), post_increment]))
        \<lparr> elog_runtime_level = 0, printf_calls = [], user = 0 \<rparr>
      = \<lparr> elog_runtime_level = 0, printf_calls = [], user = 0 \<rparr>"
proof -
  let ?cfg = "default_config\<lparr>ELOG_COMPILED_LEVEL := Enumerator ELOG_LEVEL_TRACE\<rparr>"
  let ?site = "\<lparr> file_name = ''main.c'', line = 42, fmt = ''n=%d'', va_args = [post_increment] \<rparr>"
  let ?st = "IfLevel 1 (Printf ''%s%s [%s: %d] n=%d%s\<newline>''
            [lit (VStr (CHR 0x1B # ''[1;35m'')), lit (VStr ''[CRITICAL]''), lit (VStr ''main.c''),
             lit (VInt 42), lit (VStr (CHR 0x1B # ''[0m'')), post_increment])"
  let ?s = "\<lparr> elog_runtime_level = 0, printf_calls = [], user = 0::int \<rparr>"
  have h1: "ELOG_USE_RUNTIME_LEVEL ?cfg \<noteq> 0"
    by (simp add: default_config_def)
  have h2: "ELOG ?cfg CRITICAL ?site = Inr ?st"
    by (simp add: ELOG_unfold ELOG_IMPL_unfold default_config_def ELOG_IMPL_format_def
        ELOG_FILE_LINE_FMT_def ELOG_COLOR_BEGIN_def)
  have h3: "elog_runtime_level ?s = word_of_int (enum_value ELOG_LEVEL_OFF)"
    by simp
  have a: "exec [5, 4, 3, 2, 1, 0] ?st ?s = ?s"
    using threshold_OFF_suppresses_every_emission [OF h1 h2 h3] by (rule conjunct1)
  show ?thesis by (intro conjI h1 h2 a)
qed

text \<open>
  C7. The admission check is monotone in the threshold: a level admitted under a
  threshold \<open>t\<close> is admitted under every \<open>t'\<close> with \<open>t \<le> t'\<close>. The levels of the six
  admission points are all admitted when the threshold holds TRACE.
\<close>

theorem admission_monotone_in_threshold:
  "(t \<le> t' \<longrightarrow> admitted L t \<longrightarrow> admitted L t')
   \<and> admitted (enum_value (ELOG_LEVEL m)) (word_of_int (enum_value ELOG_LEVEL_TRACE))"
proof (intro conjI impI)
  assume "t \<le> t'" and "admitted L t"
  then show "admitted L t'"
    by (simp add: admitted_def word_le_def)
next
  show "admitted (enum_value (ELOG_LEVEL m)) (word_of_int (enum_value ELOG_LEVEL_TRACE))"
    using enum_value_ELOG_LEVEL_le [of m] by (simp add: admitted_def)
qed

theorem admission_monotone_in_threshold_witness:
  "(2 :: 8 word) \<le> 4
   \<and> admitted (enum_value ELOG_LEVEL_ERROR) 2
   \<and> admitted (enum_value ELOG_LEVEL_ERROR) 4
   \<and> admitted (enum_value (ELOG_LEVEL DEBUG)) (word_of_int (enum_value ELOG_LEVEL_TRACE))"
proof -
  have h1: "(2 :: 8 word) \<le> 4" by simp
  have h2: "admitted (enum_value ELOG_LEVEL_ERROR) 2" by (simp add: admitted_def)
  note t = admission_monotone_in_threshold [of 2 4 "enum_value ELOG_LEVEL_ERROR" DEBUG]
  from t h1 h2 have a: "admitted (enum_value ELOG_LEVEL_ERROR) 4" by blast
  from t have b: "admitted (enum_value (ELOG_LEVEL DEBUG)) (word_of_int (enum_value ELOG_LEVEL_TRACE))"
    by blast
  show ?thesis by (intro conjI h1 h2 a b)
qed

text \<open>
  C10. With the run-time level feature on, an invocation that the run-time check denies
  (the level of the admission point is above the threshold) returns the state it was
  given, whatever the caller's argument expressions are: none of them is evaluated and
  nothing is written.
\<close>

theorem denied_call_evaluates_nothing:
  assumes "ELOG_USE_RUNTIME_LEVEL cfg \<noteq> 0"
    and "ELOG cfg m site = Inr st"
    and "uint (elog_runtime_level s) < enum_value (ELOG_LEVEL m)"
  shows "exec ord st s = s"
proof -
  have "\<not> admitted (enum_value (ELOG_LEVEL m)) (elog_runtime_level s)"
    using assms(3) by (simp add: admitted_def)
  with ELOG_Inr_cases [OF assms(2)] assms(1) show ?thesis
    by auto
qed

theorem denied_call_evaluates_nothing_witness:
  "ELOG_USE_RUNTIME_LEVEL default_config \<noteq> 0
   \<and> ELOG default_config WARN
        \<lparr> file_name = ''main.c'', line = 42, fmt = ''n=%d'', va_args = [post_increment] \<rparr>
      = Inr (IfLevel 3 (Printf ''%s%s [%s: %d] n=%d%s\<newline>''
            [lit (VStr (CHR 0x1B # ''[1;33m'')), lit (VStr ''[WARN]''), lit (VStr ''main.c''),
             lit (VInt 42), lit (VStr (CHR 0x1B # ''[0m'')), post_increment]))
   \<and> uint (elog_runtime_level \<lparr> elog_runtime_level = 2, printf_calls = [], user = (0::int) \<rparr>)
        < enum_value (ELOG_LEVEL WARN)
   \<and> exec [5, 4, 3, 2, 1, 0] (IfLevel 3 (Printf ''%s%s [%s: %d] n=%d%s\<newline>''
            [lit (VStr (CHR 0x1B # ''[1;33m'')), lit (VStr ''[WARN]''), lit (VStr ''main.c''),
             lit (VInt 42), lit (VStr (CHR 0x1B # ''[0m'')), post_increment]))
        \<lparr> elog_runtime_level = 2, printf_calls = [], user = 0 \<rparr>
      = \<lparr> elog_runtime_level = 2, printf_calls = [], user = 0 \<rparr>
   \<and> user (exec [5, 4, 3, 2, 1, 0] (IfLevel 3 (Printf ''%s%s [%s: %d] n=%d%s\<newline>''
            [lit (VStr (CHR 0x1B # ''[1;33m'')), lit (VStr ''[WARN]''), lit (VStr ''main.c''),
             lit (VInt 42), lit (VStr (CHR 0x1B # ''[0m'')), post_increment]))
        \<lparr> elog_runtime_level = 3, printf_calls = [], user = 0 \<rparr>) = 1"
proof -
  let ?site = "\<lparr> file_name = ''main.c'', line = 42, fmt = ''n=%d'', va_args = [post_increment] \<rparr>"
  let ?st = "IfLevel 3 (Printf ''%s%s [%s: %d] n=%d%s\<newline>''
            [lit (VStr (CHR 0x1B # ''[1;33m'')), lit (VStr ''[WARN]''), lit (VStr ''main.c''),
             lit (VInt 42), lit (VStr (CHR 0x1B # ''[0m'')), post_increment])"
  let ?s = "\<lparr> elog_runtime_level = 2, printf_calls = [], user = 0::int \<rparr>"
  have h1: "ELOG_USE_RUNTIME_LEVEL default_config \<noteq> 0"
    by (simp add: default_config_def)
  have h2: "ELOG default_config WARN ?site = Inr ?st"
    by (simp add: ELOG_unfold ELOG_IMPL_unfold default_config_def ELOG_IMPL_format_def
        ELOG_FILE_LINE_FMT_def ELOG_COLOR_BEGIN_def)
  have h3: "uint (elog_runtime_level ?s) < enum_value (ELOG_LEVEL WARN)"
    by simp
  have a: "exec [5, 4, 3, 2, 1, 0] ?st ?s = ?s"
    by (rule denied_call_evaluates_nothing [OF h1 h2 h3])
  have b: "user (exec [5, 4, 3, 2, 1, 0] ?st \<lparr> elog_runtime_level = 3, printf_calls = [], user = 0 \<rparr>) = 1"
    by (simp add: admitted_def post_increment_def call_printf_def eval_args_literals_and_one)
  show ?thesis by (intro conjI h1 h2 h3 a b)
qed

section \<open>The repeated definitions\<close>

text \<open>
  C9. The second blocks for WARN, INFO, DEBUG and TRACE repeat the first ones token for
  token, and they change nothing: processing the header as it is gives the macro table
  that a header with one definition for each severity gives, so every use of an
  admission point is translated, and therefore behaves, the same.
\<close>

theorem repeated_definitions_are_inert:
  "drop 6 (admission_blocks cfg) = take 4 (drop 2 (admission_blocks cfg))
   \<and> take 6 (admission_blocks cfg) = single_definition_blocks cfg
   \<and> elog_h cfg = elog_h_single cfg
   \<and> ELOG cfg m site = translate_with (elog_h_single cfg) cfg m site
   \<and> run ord cfg m site s =
       (case translate_with (elog_h_single cfg) cfg m site of
          Inl err \<Rightarrow> Inl err
        | Inr st \<Rightarrow> Inr (exec ord st s))"
proof -
  have same: "elog_h cfg = elog_h_single cfg"
    by (simp only: elog_h_table elog_h_single_def single_table)
  show ?thesis
    by (simp add: admission_blocks_def single_definition_blocks_def same run_def ELOG_def)
qed


end
